theory Spec2Isabelle
  imports Complex_Main
begin

section \<open>The state machine of StateMachine.h\<close>

subsection \<open>Data model\<close>

text \<open>
  The status enumeration \<^verbatim>\<open>EStateMachineStatus\<close> (lines 10 to 15 of StateMachine.h).
\<close>

datatype EStateMachineStatus = NullOwner | StateChanged | StateUnchanged | TickSuccess

text \<open>
  The class template \<^verbatim>\<open>TStateMachine<EnumClass, TemplateClass>\<close>. The type variables are
  \<^item> \<open>'s\<close>: \<^verbatim>\<open>EnumClass\<close>, the state identifiers;
  \<^item> \<open>'e\<close>: the values of \<^verbatim>\<open>void (TemplateClass::*)()\<close>, the type behind both
    \<^verbatim>\<open>CallbackOnEnter\<close> and \<^verbatim>\<open>CallbackOnExit\<close>, other than the null member pointer;
  \<^item> \<open>'u\<close>: the values of \<^verbatim>\<open>void (TemplateClass::*)(float)\<close> (\<^verbatim>\<open>CallbackOnUpdate\<close>),
    other than the null member pointer;
  \<^item> \<open>'a\<close>: the non-null values of \<^verbatim>\<open>TemplateClass*\<close>.
  A pointer that may be null is an \<open>option\<close>, with \<open>None\<close> for null. A \<^verbatim>\<open>std::map\<close> is a
  partial function: \<open>m k = None\<close> says that \<open>k\<close> has no entry, \<open>m k = Some None\<close> that its
  entry holds the null member pointer, \<open>m k = Some (Some f)\<close> that it holds \<open>f\<close>.
\<close>

record ('s, 'e, 'u, 'a) TStateMachine =
  Owner :: "'a option"
  CurrentState :: 's
  StatesOnEnter :: "'s \<rightharpoonup> 'e option"
  StatesTick :: "'s \<rightharpoonup> 'u option"
  StatesOnExit :: "'s \<rightharpoonup> 'e option"

text \<open>
  A callback is code of the owner's class. It runs on the whole program state, which holds
  the machine itself (\<open>fsm\<close>) next to everything else (\<open>env\<close>, of type \<open>'h\<close>): a callback
  may call back into the machine that invoked it.
\<close>

record ('s, 'e, 'u, 'a, 'h) world =
  fsm :: "('s, 'e, 'u, 'a) TStateMachine"
  env :: 'h

text \<open>
  What invoking a member pointer does is given by the program around the machine, so the
  operations that invoke callbacks take it as a parameter: \<open>call f this\<close> is the effect
  of \<^verbatim>\<open>(this->*f)()\<close> and \<open>callf f this dt\<close> the effect of \<^verbatim>\<open>(this->*f)(dt)\<close>. A callback is taken
  to return to its caller. The \<^verbatim>\<open>float\<close> argument is only handed on, so its type is a
  variable \<open>'t\<close>.
\<close>

type_synonym ('s, 'e, 'u, 'a, 'h) nullary_call =
  "'e \<Rightarrow> 'a option \<Rightarrow> ('s, 'e, 'u, 'a, 'h) world \<Rightarrow> ('s, 'e, 'u, 'a, 'h) world"

type_synonym ('s, 'e, 'u, 'a, 'h, 't) float_call =
  "'u \<Rightarrow> 'a option \<Rightarrow> 't \<Rightarrow> ('s, 'e, 'u, 'a, 'h) world \<Rightarrow> ('s, 'e, 'u, 'a, 'h) world"

subsection \<open>Operations\<close>

text \<open>
  \<^verbatim>\<open>std::map::operator[]\<close>: the value stored under the key; a key without an entry gets one
  holding the value-initialised (null) member pointer first.
\<close>

definition map_index :: "('k \<rightharpoonup> 'v option) \<Rightarrow> 'k \<Rightarrow> 'v option \<times> ('k \<rightharpoonup> 'v option)" where
  "map_index m k = (case m k of None \<Rightarrow> (None, m(k \<mapsto> None)) | Some v \<Rightarrow> (v, m))"

text \<open>The constructor (lines 44 to 47); the three maps start empty.\<close>

definition TStateMachine :: "'a option \<Rightarrow> 's \<Rightarrow> ('s, 'e, 'u, 'a) TStateMachine" where
  "TStateMachine owner emptyState =
     \<lparr>Owner = owner, CurrentState = emptyState,
      StatesOnEnter = Map.empty, StatesTick = Map.empty, StatesOnExit = Map.empty\<rparr>"

text \<open>\<^verbatim>\<open>RegisterState\<close> (lines 63 to 67): three assignments through \<^verbatim>\<open>operator[]\<close>.\<close>

definition RegisterState ::
  "'s \<Rightarrow> 'e option \<Rightarrow> 'u option \<Rightarrow> 'e option \<Rightarrow>
   ('s, 'e, 'u, 'a) TStateMachine \<Rightarrow> ('s, 'e, 'u, 'a) TStateMachine" where
  "RegisterState state callbackEntry callbackTick callbackExit m =
     (let m1 = m\<lparr>StatesOnEnter := (snd (map_index (StatesOnEnter m) state))(state \<mapsto> callbackEntry)\<rparr>;
          m2 = m1\<lparr>StatesTick := (snd (map_index (StatesTick m1) state))(state \<mapsto> callbackTick)\<rparr>;
          m3 = m2\<lparr>StatesOnExit := (snd (map_index (StatesOnExit m2) state))(state \<mapsto> callbackExit)\<rparr>
      in m3)"

text \<open>
  \<^verbatim>\<open>GetCurrentState\<close> (lines 73 to 75). The member function is not \<^verbatim>\<open>const\<close>, so the model
  returns the machine as well.
\<close>

definition GetCurrentState ::
  "('s, 'e, 'u, 'a) TStateMachine \<Rightarrow> 's \<times> ('s, 'e, 'u, 'a) TStateMachine" where
  "GetCurrentState m = (CurrentState m, m)"

text \<open>
  \<^verbatim>\<open>if(callback) { (Owner->*callback)(); }\<close> (lines 90 to 92 and 99 to 101): the member
  \<^verbatim>\<open>Owner\<close> is read when the call is made.
\<close>

definition invoke0 ::
  "('s, 'e, 'u, 'a, 'h) nullary_call \<Rightarrow> 'e option \<Rightarrow>
   ('s, 'e, 'u, 'a, 'h) world \<Rightarrow> ('s, 'e, 'u, 'a, 'h) world" where
  "invoke0 call callback w =
     (case callback of None \<Rightarrow> w | Some f \<Rightarrow> call f (Owner (fsm w)) w)"

text \<open>\<^verbatim>\<open>ChangeState\<close> (lines 83 to 110).\<close>

definition ChangeState ::
  "('s, 'e, 'u, 'a, 'h) nullary_call \<Rightarrow> 's \<Rightarrow> ('s, 'e, 'u, 'a, 'h) world \<Rightarrow>
   EStateMachineStatus \<times> ('s, 'e, 'u, 'a, 'h) world" where
  "ChangeState call stateNext w =
     (if Owner (fsm w) \<noteq> None then
        if CurrentState (fsm w) \<noteq> stateNext then
          let (callbackExit, exits) = map_index (StatesOnExit (fsm w)) (CurrentState (fsm w));
              w1 = w\<lparr>fsm := (fsm w)\<lparr>StatesOnExit := exits\<rparr>\<rparr>;
              w2 = invoke0 call callbackExit w1;
              w3 = w2\<lparr>fsm := (fsm w2)\<lparr>CurrentState := stateNext\<rparr>\<rparr>;
              (callbackEnter, enters) = map_index (StatesOnEnter (fsm w3)) (CurrentState (fsm w3));
              w4 = w3\<lparr>fsm := (fsm w3)\<lparr>StatesOnEnter := enters\<rparr>\<rparr>;
              w5 = invoke0 call callbackEnter w4
          in (StateChanged, w5)
        else (StateUnchanged, w)
      else (NullOwner, w))"

text \<open>\<^verbatim>\<open>Tick\<close> (lines 117 to 128).\<close>

definition Tick ::
  "('s, 'e, 'u, 'a, 'h, 't) float_call \<Rightarrow> 't \<Rightarrow> ('s, 'e, 'u, 'a, 'h) world \<Rightarrow>
   EStateMachineStatus \<times> ('s, 'e, 'u, 'a, 'h) world" where
  "Tick callf DeltaTime w =
     (if Owner (fsm w) \<noteq> None then
        let (callback, ticks) = map_index (StatesTick (fsm w)) (CurrentState (fsm w));
            w1 = w\<lparr>fsm := (fsm w)\<lparr>StatesTick := ticks\<rparr>\<rparr>
        in (case callback of
              Some f \<Rightarrow> (TickSuccess, callf f (Owner (fsm w1)) DeltaTime w1)
            | None \<Rightarrow> (NullOwner, w1))
      else (NullOwner, w))"

subsection \<open>Notions used to state the properties\<close>

text \<open>
  The callback bound to a key: what \<^verbatim>\<open>operator[]\<close> reads there, null both for a key
  without an entry and for an entry holding the null member pointer.
\<close>

definition registered :: "('k \<rightharpoonup> 'v option) \<Rightarrow> 'k \<Rightarrow> 'v option" where
  "registered m k = fst (map_index m k)"

text \<open>
  The three maps are private and the class reads them through \<^verbatim>\<open>operator[]\<close> only, so
  code outside the class cannot tell a missing entry from a null one. Two program
  states are \<open>alike\<close> when they differ at most in that; a callback semantics is
  \<open>oblivious\<close> when it takes alike states to alike states.
\<close>

definition same_bindings :: "('k \<rightharpoonup> 'v option) \<Rightarrow> ('k \<rightharpoonup> 'v option) \<Rightarrow> bool" where
  "same_bindings m m' = (\<forall>k. registered m k = registered m' k)"

definition alike ::
  "('s, 'e, 'u, 'a, 'h) world \<Rightarrow> ('s, 'e, 'u, 'a, 'h) world \<Rightarrow> bool" where
  "alike w w' =
     (Owner (fsm w) = Owner (fsm w') \<and> CurrentState (fsm w) = CurrentState (fsm w') \<and>
      same_bindings (StatesOnEnter (fsm w)) (StatesOnEnter (fsm w')) \<and>
      same_bindings (StatesTick (fsm w)) (StatesTick (fsm w')) \<and>
      same_bindings (StatesOnExit (fsm w)) (StatesOnExit (fsm w')) \<and>
      env w = env w')"

definition oblivious :: "('s, 'e, 'u, 'a, 'h) nullary_call \<Rightarrow> bool" where
  "oblivious call = (\<forall>f this w w'. alike w w' \<longrightarrow> alike (call f this w) (call f this w'))"

definition obliviousf :: "('s, 'e, 'u, 'a, 'h, 't) float_call \<Rightarrow> bool" where
  "obliviousf callf =
     (\<forall>f this dt w w'. alike w w' \<longrightarrow> alike (callf f this dt w) (callf f this dt w'))"

subsection \<open>A concrete owner\<close>

text \<open>
  An owner with states \<open>Idle\<close>, \<open>Moving\<close> and \<open>Stunned\<close> whose callbacks append a record of
  their own call to a log (the \<open>env\<close> of the program state). One of them,
  \<open>RedirectToStunned\<close>, then calls \<^verbatim>\<open>ChangeState(Stunned)\<close> on the machine that invoked it, as
  \<^verbatim>\<open>void RedirectToStunned() { machine.ChangeState(Stunned); }\<close> would. The callbacks that
  this inner call invokes log and return; \<open>RedirectToStunned\<close> is not among them in the
  program states below.
\<close>

datatype demo_state = Idle | Moving | Stunned

datatype demo_nullary =
  OnEnterIdle | OnExitIdle | OnEnterMoving | OnExitMoving | RedirectToStunned

datatype demo_float = OnTickIdle | OnTickMoving

datatype demo_event = Ran demo_nullary | RanWith demo_float real

type_synonym demo_world = "(demo_state, demo_nullary, demo_float, nat, demo_event list) world"

definition demo_log :: "demo_nullary \<Rightarrow> nat option \<Rightarrow> demo_world \<Rightarrow> demo_world" where
  "demo_log f this w = w\<lparr>env := env w @ [Ran f]\<rparr>"

definition demo_call :: "demo_nullary \<Rightarrow> nat option \<Rightarrow> demo_world \<Rightarrow> demo_world" where
  "demo_call f this w =
     (if f = RedirectToStunned then snd (ChangeState demo_log Stunned (demo_log f this w))
      else demo_log f this w)"

definition demo_callf :: "demo_float \<Rightarrow> nat option \<Rightarrow> real \<Rightarrow> demo_world \<Rightarrow> demo_world" where
  "demo_callf f this dt w = w\<lparr>env := env w @ [RanWith f dt]\<rparr>"

text \<open>
  The machine of the owner at address 1, constructed in \<open>Idle\<close>, with \<open>Idle\<close> registered with
  three callbacks and \<open>Moving\<close> with an enter and an update callback and a null exit
  callback; \<open>Stunned\<close> is never registered.
\<close>

definition demo_machine :: "(demo_state, demo_nullary, demo_float, nat) TStateMachine" where
  "demo_machine =
     RegisterState Moving (Some OnEnterMoving) (Some OnTickMoving) None
       (RegisterState Idle (Some OnEnterIdle) (Some OnTickIdle) (Some OnExitIdle)
          (TStateMachine (Some 1) Idle))"

definition demo_start :: demo_world where
  "demo_start = \<lparr>fsm = demo_machine, env = []\<rparr>"

text \<open>The same, with the redirecting callback as the enter callback of \<open>Moving\<close>.\<close>

definition redirect_start :: demo_world where
  "redirect_start =
     \<lparr>fsm = RegisterState Moving (Some RedirectToStunned) (Some OnTickMoving) None demo_machine,
      env = []\<rparr>"

text \<open>A machine constructed with the null pointer as its owner.\<close>

definition orphan_start :: demo_world where
  "orphan_start =
     \<lparr>fsm = RegisterState Idle (Some OnEnterIdle) (Some OnTickIdle) (Some OnExitIdle)
              (TStateMachine None Idle),
      env = []\<rparr>"

text \<open>
  A machine on which \<^verbatim>\<open>RegisterState\<close> was never called, and one whose only state is
  registered with a null update callback.
\<close>

definition bare_start :: demo_world where
  "bare_start = \<lparr>fsm = TStateMachine (Some 1) Idle, env = []\<rparr>"

definition mute_start :: demo_world where
  "mute_start =
     \<lparr>fsm = RegisterState Idle (Some OnEnterIdle) None (Some OnExitIdle)
              (TStateMachine (Some 1) Idle),
      env = []\<rparr>"

text \<open>A machine constructed in \<open>Stunned\<close>, a state that is never registered.\<close>

definition stunned_start :: demo_world where
  "stunned_start =
     \<lparr>fsm = RegisterState Idle (Some OnEnterIdle) (Some OnTickIdle) (Some OnExitIdle)
              (TStateMachine (Some 1) Stunned),
      env = []\<rparr>"

text \<open>
  The concrete owner after \<^verbatim>\<open>ChangeState(Stunned)\<close> and a \<^verbatim>\<open>Tick\<close> there: \<open>Stunned\<close> was never
  registered, and the lookups have left null entries for it.
\<close>

definition stunned_visited :: demo_world where
  "stunned_visited = snd (Tick demo_callf (1 / 2) (snd (ChangeState demo_call Stunned demo_start)))"

section \<open>Properties\<close>

subsection \<open>Reading and writing the maps\<close>

lemma map_index_eq: "map_index m k = (registered m k, m(k \<mapsto> registered m k))"
  by (auto simp: map_index_def registered_def split: option.splits)

lemma registered_cases: "registered m k = (case m k of None \<Rightarrow> None | Some v \<Rightarrow> v)"
  by (simp add: registered_def map_index_def split: option.splits)

lemma registered_upd: "registered (m(k \<mapsto> v)) k' = (if k' = k then v else registered m k')"
  by (simp add: registered_def map_index_def split: option.splits)

lemma invoke0_None: "invoke0 call None w = w"
  by (simp add: invoke0_def)

lemma RegisterState_eq:
  "RegisterState s a b c m =
     m\<lparr>StatesOnEnter := (StatesOnEnter m)(s \<mapsto> a), StatesTick := (StatesTick m)(s \<mapsto> b),
       StatesOnExit := (StatesOnExit m)(s \<mapsto> c)\<rparr>"
  by (simp add: RegisterState_def map_index_eq)

lemma demo_machine_eq:
  "demo_machine =
     \<lparr>Owner = Some 1, CurrentState = Idle,
      StatesOnEnter = [Idle \<mapsto> Some OnEnterIdle, Moving \<mapsto> Some OnEnterMoving],
      StatesTick = [Idle \<mapsto> Some OnTickIdle, Moving \<mapsto> Some OnTickMoving],
      StatesOnExit = [Idle \<mapsto> Some OnExitIdle, Moving \<mapsto> None]\<rparr>"
  by (simp add: demo_machine_def RegisterState_eq TStateMachine_def)

subsection \<open>Program states that differ in null entries only\<close>

lemma same_bindings_upd:
  "same_bindings m m' \<Longrightarrow> same_bindings (m(k \<mapsto> v)) (m'(k \<mapsto> v))"
  by (simp add: same_bindings_def registered_upd)

lemma same_bindings_null: "registered m k = None \<Longrightarrow> same_bindings m (m(k \<mapsto> None))"
  by (simp add: same_bindings_def registered_upd)

text \<open>A lookup does not change what any key reads as.\<close>

lemma registered_map_index: "registered (snd (map_index m k)) k' = registered m k'"
  by (simp add: map_index_eq registered_upd)

lemma invoke0_alike:
  "oblivious call \<Longrightarrow> alike w w' \<Longrightarrow> alike (invoke0 call cb w) (invoke0 call cb w')"
  by (cases cb) (auto simp: invoke0_def oblivious_def alike_def)

text \<open>
  \<^verbatim>\<open>ChangeState\<close> cannot tell alike program states apart either, so a callback that calls
  it stays oblivious.
\<close>

lemma ChangeState_alike:
  assumes "oblivious call" and "alike w w'"
  shows "fst (ChangeState call s w) = fst (ChangeState call s w') \<and>
         alike (snd (ChangeState call s w)) (snd (ChangeState call s w'))"
proof (cases "Owner (fsm w) \<noteq> None \<and> CurrentState (fsm w) \<noteq> s")
  case False
  then show ?thesis
    using assms(2) by (auto simp: ChangeState_def alike_def)
next
  case True
  define x where "x = registered (StatesOnExit (fsm w)) (CurrentState (fsm w))"
  define v1 where
    "v1 = w\<lparr>fsm := (fsm w)\<lparr>StatesOnExit := (StatesOnExit (fsm w))(CurrentState (fsm w) \<mapsto> x)\<rparr>\<rparr>"
  define v1' where
    "v1' = w'\<lparr>fsm := (fsm w')\<lparr>StatesOnExit := (StatesOnExit (fsm w'))(CurrentState (fsm w') \<mapsto> x)\<rparr>\<rparr>"
  define v3 where "v3 = (invoke0 call x v1)\<lparr>fsm := (fsm (invoke0 call x v1))\<lparr>CurrentState := s\<rparr>\<rparr>"
  define v3' where
    "v3' = (invoke0 call x v1')\<lparr>fsm := (fsm (invoke0 call x v1'))\<lparr>CurrentState := s\<rparr>\<rparr>"
  define e where "e = registered (StatesOnEnter (fsm v3)) s"
  define v4 where "v4 = v3\<lparr>fsm := (fsm v3)\<lparr>StatesOnEnter := (StatesOnEnter (fsm v3))(s \<mapsto> e)\<rparr>\<rparr>"
  define v4' where
    "v4' = v3'\<lparr>fsm := (fsm v3')\<lparr>StatesOnEnter := (StatesOnEnter (fsm v3'))(s \<mapsto> e)\<rparr>\<rparr>"
  have x': "registered (StatesOnExit (fsm w')) (CurrentState (fsm w')) = x"
    using assms(2) by (simp add: x_def alike_def same_bindings_def)
  have a1: "alike v1 v1'"
    using assms(2) by (simp add: v1_def v1'_def alike_def same_bindings_upd)
  have a2: "alike (invoke0 call x v1) (invoke0 call x v1')"
    using assms(1) a1 by (rule invoke0_alike)
  have a3: "alike v3 v3'"
    using a2 by (simp add: v3_def v3'_def alike_def)
  have e': "registered (StatesOnEnter (fsm v3')) s = e"
    using a3 by (simp add: e_def alike_def same_bindings_def)
  have a4: "alike v4 v4'"
    using a3 by (simp add: v4_def v4'_def alike_def same_bindings_upd)
  have a5: "alike (invoke0 call e v4) (invoke0 call e v4')"
    using assms(1) a4 by (rule invoke0_alike)
  have l: "ChangeState call s w = (StateChanged, invoke0 call e v4)"
    using True
    by (simp add: ChangeState_def map_index_eq Let_def v4_def e_def v3_def v1_def x_def)
  have own: "Owner (fsm w') \<noteq> None \<and> CurrentState (fsm w') \<noteq> s"
    using True assms(2) by (simp add: alike_def)
  have r: "ChangeState call s w' = (StateChanged, invoke0 call e v4')"
    using own e' unfolding v4'_def v3'_def v1'_def
    by (simp add: ChangeState_def map_index_eq Let_def x')
  show ?thesis
    using l r a5 by simp
qed

text \<open>
  The other operations of the class do the same, so every callback written against the
  public interface of the machine is oblivious.
\<close>

lemma Tick_alike:
  assumes "obliviousf callf" and "alike w w'"
  shows "fst (Tick callf dt w) = fst (Tick callf dt w') \<and>
         alike (snd (Tick callf dt w)) (snd (Tick callf dt w'))"
proof (cases "Owner (fsm w) \<noteq> None")
  case False
  then show ?thesis
    using assms(2) by (auto simp: Tick_def alike_def)
next
  case True
  define t where "t = registered (StatesTick (fsm w)) (CurrentState (fsm w))"
  define v1 where
    "v1 = w\<lparr>fsm := (fsm w)\<lparr>StatesTick := (StatesTick (fsm w))(CurrentState (fsm w) \<mapsto> t)\<rparr>\<rparr>"
  define v1' where
    "v1' = w'\<lparr>fsm := (fsm w')\<lparr>StatesTick := (StatesTick (fsm w'))(CurrentState (fsm w') \<mapsto> t)\<rparr>\<rparr>"
  have t': "registered (StatesTick (fsm w')) (CurrentState (fsm w')) = t"
    using assms(2) by (simp add: t_def alike_def same_bindings_def)
  have a1: "alike v1 v1'"
    using assms(2) by (simp add: v1_def v1'_def alike_def same_bindings_upd)
  have own: "Owner (fsm w') \<noteq> None" "Owner (fsm v1') = Owner (fsm v1)"
    using True assms(2) by (simp_all add: alike_def v1_def v1'_def)
  show ?thesis
  proof (cases t)
    case None
    have "Tick callf dt w = (NullOwner, v1)"
      using True None unfolding v1_def t_def by (simp add: Tick_def map_index_eq)
    moreover have "Tick callf dt w' = (NullOwner, v1')"
      using own(1) t' None unfolding v1'_def by (simp add: Tick_def map_index_eq)
    ultimately show ?thesis
      using a1 by simp
  next
    case (Some f)
    have "Tick callf dt w = (TickSuccess, callf f (Owner (fsm v1)) dt v1)"
      using True Some unfolding v1_def t_def by (simp add: Tick_def map_index_eq)
    moreover have "Tick callf dt w' = (TickSuccess, callf f (Owner (fsm v1)) dt v1')"
      using own t' Some unfolding v1'_def v1_def by (simp add: Tick_def map_index_eq)
    ultimately show ?thesis
      using a1 assms(1) by (simp add: obliviousf_def)
  qed
qed

lemma RegisterState_alike:
  assumes "alike w w'"
  shows "alike (w\<lparr>fsm := RegisterState s a b c (fsm w)\<rparr>) (w'\<lparr>fsm := RegisterState s a b c (fsm w')\<rparr>)"
  using assms by (simp add: alike_def RegisterState_eq same_bindings_upd)

lemma GetCurrentState_alike:
  assumes "alike w w'"
  shows "fst (GetCurrentState (fsm w)) = fst (GetCurrentState (fsm w')) \<and>
         alike (w\<lparr>fsm := snd (GetCurrentState (fsm w))\<rparr>) (w'\<lparr>fsm := snd (GetCurrentState (fsm w'))\<rparr>)"
  using assms by (simp add: alike_def GetCurrentState_def)

lemma RegisterState_null_alike:
  assumes "registered (StatesOnEnter (fsm w)) u = None"
    and "registered (StatesTick (fsm w)) u = None"
    and "registered (StatesOnExit (fsm w)) u = None"
  shows "alike w (w\<lparr>fsm := RegisterState u None None None (fsm w)\<rparr>)"
  using assms by (simp add: alike_def RegisterState_eq same_bindings_null)

lemma demo_log_oblivious: "oblivious demo_log"
  by (simp add: oblivious_def demo_log_def alike_def)

lemma demo_call_oblivious: "oblivious demo_call"
  unfolding oblivious_def
proof (intro allI impI)
  fix f this and w w' :: demo_world
  assume "alike w w'"
  with demo_log_oblivious have logged: "alike (demo_log f this w) (demo_log f this w')"
    by (simp add: oblivious_def)
  show "alike (demo_call f this w) (demo_call f this w')"
  proof (cases "f = RedirectToStunned")
    case True
    then show ?thesis
      using ChangeState_alike [OF demo_log_oblivious logged, of Stunned]
      by (simp add: demo_call_def)
  next
    case False
    then show ?thesis
      using logged by (simp add: demo_call_def)
  qed
qed

subsection \<open>Transitions\<close>

text \<open>
  C1. With an owner and a target \<open>s\<close> other than the current state, \<^verbatim>\<open>ChangeState(s)\<close>
  returns \<^verbatim>\<open>StateChanged\<close> and does, in this order: read the exit callback bound to the
  old state (\<open>w1\<close>), invoke it once with no arguments if it is not null and let it return
  (\<open>w2\<close>), set the current state to \<open>s\<close> (\<open>w3\<close>), read the enter callback then bound to
  \<open>s\<close> (\<open>w4\<close>), invoke it once with no arguments if it is not null. The current state is
  \<open>s\<close> when the enter callback starts. After the call \<^verbatim>\<open>GetCurrentState()\<close> returns \<open>s\<close>
  when no enter callback runs or the enter callback leaves the current state as it found
  it; an enter callback that calls \<^verbatim>\<open>ChangeState\<close> itself leaves another state behind.
\<close>

theorem ChangeState_transition:
  fixes call :: "('s, 'e, 'u, 'a, 'h) nullary_call"
    and w :: "('s, 'e, 'u, 'a, 'h) world" and s :: 's
  defines "callbackExit \<equiv> registered (StatesOnExit (fsm w)) (CurrentState (fsm w))"
  defines "w1 \<equiv> w\<lparr>fsm := (fsm w)\<lparr>StatesOnExit :=
                  (StatesOnExit (fsm w))(CurrentState (fsm w) \<mapsto> callbackExit)\<rparr>\<rparr>"
  defines "w2 \<equiv> invoke0 call callbackExit w1"
  defines "w3 \<equiv> w2\<lparr>fsm := (fsm w2)\<lparr>CurrentState := s\<rparr>\<rparr>"
  defines "callbackEnter \<equiv> registered (StatesOnEnter (fsm w3)) s"
  defines "w4 \<equiv> w3\<lparr>fsm := (fsm w3)\<lparr>StatesOnEnter :=
                  (StatesOnEnter (fsm w3))(s \<mapsto> callbackEnter)\<rparr>\<rparr>"
  assumes "Owner (fsm w) \<noteq> None" and "s \<noteq> CurrentState (fsm w)"
  shows "ChangeState call s w = (StateChanged, invoke0 call callbackEnter w4) \<and>
         CurrentState (fsm w4) = s \<and>
         (CurrentState (fsm (invoke0 call callbackEnter w4)) = CurrentState (fsm w4) \<longrightarrow>
            fst (GetCurrentState (fsm (snd (ChangeState call s w)))) = s)"
proof -
  have run: "ChangeState call s w = (StateChanged, invoke0 call callbackEnter w4)"
    using assms(7,8)
    by (simp add: ChangeState_def map_index_eq Let_def w4_def callbackEnter_def w3_def w2_def
        w1_def callbackExit_def)
  have cur: "CurrentState (fsm w4) = s"
    by (simp add: w4_def w3_def)
  show ?thesis
    using run cur by (simp add: GetCurrentState_def)
qed

text \<open>
  From \<open>Idle\<close> to \<open>Moving\<close> on the concrete owner: the log holds the exit callback of \<open>Idle\<close>,
  then the enter callback of \<open>Moving\<close>.
\<close>

theorem ChangeState_transition_witness:
  "Owner (fsm demo_start) \<noteq> None \<and> Moving \<noteq> CurrentState (fsm demo_start) \<and>
   ChangeState demo_call Moving demo_start =
     (StateChanged, \<lparr>fsm = demo_machine\<lparr>CurrentState := Moving\<rparr>,
                     env = [Ran OnExitIdle, Ran OnEnterMoving]\<rparr>) \<and>
   fst (GetCurrentState (fsm (snd (ChangeState demo_call Moving demo_start)))) = Moving"
  using ChangeState_transition [where w = demo_start and s = Moving and call = demo_call]
  by (simp add: demo_start_def demo_machine_eq registered_cases invoke0_def demo_call_def
      demo_log_def GetCurrentState_def fun_upd_idem)

text \<open>
  With the redirecting enter callback bound to \<open>Moving\<close>, \<^verbatim>\<open>ChangeState(Moving)\<close> from
  \<open>Idle\<close> returns \<^verbatim>\<open>StateChanged\<close> and leaves the machine in \<open>Stunned\<close>.
\<close>

theorem ChangeState_reentrant_counterexample:
  "Owner (fsm redirect_start) \<noteq> None \<and> Moving \<noteq> CurrentState (fsm redirect_start) \<and>
   fst (ChangeState demo_call Moving redirect_start) = StateChanged \<and>
   fst (GetCurrentState (fsm (snd (ChangeState demo_call Moving redirect_start)))) = Stunned \<and>
   fst (GetCurrentState (fsm (snd (ChangeState demo_call Moving redirect_start)))) \<noteq> Moving"
  by (simp add: redirect_start_def demo_machine_eq RegisterState_eq ChangeState_def map_index_def
      invoke0_def demo_call_def demo_log_def GetCurrentState_def)

text \<open>
  C2. With an owner, \<^verbatim>\<open>ChangeState\<close> to the current state returns \<^verbatim>\<open>StateUnchanged\<close> and
  hands back the program state it was given, whatever invoking a callback would do: the
  current state is as it was and no callback has run.
\<close>

theorem ChangeState_same_state:
  assumes "Owner (fsm w) \<noteq> None" and "s = CurrentState (fsm w)"
  shows "ChangeState call s w = (StateUnchanged, w)"
  using assms by (simp add: ChangeState_def)

theorem ChangeState_same_state_witness:
  "Owner (fsm demo_start) \<noteq> None \<and> Idle = CurrentState (fsm demo_start) \<and>
   ChangeState demo_call Idle demo_start = (StateUnchanged, demo_start)"
  using ChangeState_same_state [of demo_start Idle demo_call]
  by (simp add: demo_start_def demo_machine_eq)

subsection \<open>Ticks\<close>

text \<open>
  C3. With an owner and no update callback bound to the current state, because the state
  has no entry in \<^verbatim>\<open>StatesTick\<close> or because its entry is null, \<^verbatim>\<open>Tick\<close> returns
  \<^verbatim>\<open>NullOwner\<close>. No callback runs: the program state that comes back does not depend on
  what invoking one would do, and differs from the one given at most in a null entry
  for the current state.
\<close>

theorem Tick_without_update_callback:
  assumes "Owner (fsm w) \<noteq> None"
    and "StatesTick (fsm w) (CurrentState (fsm w)) = None \<or>
         StatesTick (fsm w) (CurrentState (fsm w)) = Some None"
  shows "Tick callf dt w =
           (NullOwner,
            w\<lparr>fsm := (fsm w)\<lparr>StatesTick :=
                 (StatesTick (fsm w))(CurrentState (fsm w) \<mapsto> None)\<rparr>\<rparr>)"
proof -
  have "map_index (StatesTick (fsm w)) (CurrentState (fsm w)) =
          (None, (StatesTick (fsm w))(CurrentState (fsm w) \<mapsto> None))"
    using assms(2) by (auto simp: map_index_def fun_upd_idem)
  then show ?thesis
    using assms(1) by (simp add: Tick_def)
qed

text \<open>The two cases: a state that was never registered, and a null update callback.\<close>

theorem Tick_without_update_callback_witness:
  "Owner (fsm bare_start) \<noteq> None \<and>
   StatesTick (fsm bare_start) (CurrentState (fsm bare_start)) = None \<and>
   fst (Tick demo_callf (1 / 2) bare_start) = NullOwner \<and>
   env (snd (Tick demo_callf (1 / 2) bare_start)) = [] \<and>
   Owner (fsm mute_start) \<noteq> None \<and>
   StatesTick (fsm mute_start) (CurrentState (fsm mute_start)) = Some None \<and>
   Tick demo_callf (1 / 2) mute_start = (NullOwner, mute_start)"
  using Tick_without_update_callback [of bare_start demo_callf "1 / 2"]
    Tick_without_update_callback [of mute_start demo_callf "1 / 2"]
  by (simp add: bare_start_def mute_start_def TStateMachine_def RegisterState_eq fun_upd_idem)

text \<open>
  C5. With an owner and a non-null update callback \<open>f\<close> bound to the current state, \<^verbatim>\<open>Tick(dt)\<close>
  returns \<^verbatim>\<open>TickSuccess\<close>, and what it does to the program state is one invocation of \<open>f\<close>
  on the owner with the argument \<open>dt\<close>.
\<close>

theorem Tick_with_update_callback:
  assumes "Owner (fsm w) \<noteq> None"
    and "StatesTick (fsm w) (CurrentState (fsm w)) = Some (Some f)"
  shows "Tick callf dt w = (TickSuccess, callf f (Owner (fsm w)) dt w)"
proof -
  have "map_index (StatesTick (fsm w)) (CurrentState (fsm w)) = (Some f, StatesTick (fsm w))"
    using assms(2) by (simp add: map_index_def)
  then show ?thesis
    using assms(1) by (simp add: Tick_def)
qed

theorem Tick_with_update_callback_witness:
  "Owner (fsm demo_start) \<noteq> None \<and>
   StatesTick (fsm demo_start) (CurrentState (fsm demo_start)) = Some (Some OnTickIdle) \<and>
   Tick demo_callf (1 / 2) demo_start =
     (TickSuccess, demo_start\<lparr>env := [RanWith OnTickIdle (1 / 2)]\<rparr>)"
  using Tick_with_update_callback [of demo_start OnTickIdle demo_callf "1 / 2"]
  by (simp add: demo_start_def demo_machine_eq demo_callf_def)

subsection \<open>A machine without an owner\<close>

text \<open>
  C4. When the owner pointer is null, \<^verbatim>\<open>ChangeState\<close> and \<^verbatim>\<open>Tick\<close> return \<^verbatim>\<open>NullOwner\<close> for
  every argument and hand back the program state they were given: no callback has run,
  and the current state and the three maps are as they were.
\<close>

theorem null_owner_is_inert:
  assumes "Owner (fsm w) = None"
  shows "ChangeState call s w = (NullOwner, w) \<and> Tick callf dt w = (NullOwner, w)"
  using assms by (simp add: ChangeState_def Tick_def)

theorem null_owner_is_inert_witness:
  "Owner (fsm orphan_start) = None \<and>
   ChangeState demo_call Moving orphan_start = (NullOwner, orphan_start) \<and>
   Tick demo_callf (1 / 2) orphan_start = (NullOwner, orphan_start)"
  using null_owner_is_inert [of orphan_start demo_call Moving demo_callf "1 / 2"]
  by (simp add: orphan_start_def RegisterState_eq TStateMachine_def)

subsection \<open>Unregistered states\<close>

text \<open>
  C6. A state \<open>u\<close> that was never registered reads as null in each of the three maps: it
  has no entry there, or the null entry that a lookup of \<^verbatim>\<open>ChangeState\<close> or \<^verbatim>\<open>Tick\<close> has
  left. Take a machine with an owner and such a state \<open>u\<close>, and the same machine after
  \<^verbatim>\<open>RegisterState(u, null, null, null)\<close>. For every target \<open>s\<close>, so in particular when \<open>s\<close> is
  \<open>u\<close> or the current state is \<open>u\<close>, \<^verbatim>\<open>ChangeState(s)\<close> returns the same status on both and
  leaves alike program states: the same owner, the same current state, the same callback
  bound to every state, and the same \<open>env\<close>, which is where the callbacks that ran have
  left their effects. A genuine transition returns \<^verbatim>\<open>StateChanged\<close>, and invoking the null
  callback read for \<open>u\<close> does nothing. The callbacks are oblivious, as code outside the
  class is: they may call back into the machine, and cannot see whether a null binding
  is an entry of a map or the lack of one.
\<close>

theorem unregistered_state_as_null_registered:
  fixes w :: "('s, 'e, 'u, 'a, 'h) world" and u :: 's
  defines "w' \<equiv> w\<lparr>fsm := RegisterState u None None None (fsm w)\<rparr>"
  assumes "oblivious call" and "Owner (fsm w) \<noteq> None"
    and "registered (StatesOnEnter (fsm w)) u = None"
    and "registered (StatesTick (fsm w)) u = None"
    and "registered (StatesOnExit (fsm w)) u = None"
  shows "fst (ChangeState call s w) = fst (ChangeState call s w') \<and>
         alike (snd (ChangeState call s w)) (snd (ChangeState call s w')) \<and>
         (s \<noteq> CurrentState (fsm w) \<longrightarrow> fst (ChangeState call s w) = StateChanged) \<and>
         invoke0 call (registered (StatesOnExit (fsm w)) u) = id \<and>
         invoke0 call (registered (StatesOnEnter (fsm w)) u) = id"
proof -
  have "alike w w'"
    unfolding w'_def using assms(4-6) by (rule RegisterState_null_alike)
  with assms(2) have same: "fst (ChangeState call s w) = fst (ChangeState call s w') \<and>
      alike (snd (ChangeState call s w)) (snd (ChangeState call s w'))"
    by (rule ChangeState_alike)
  have changed: "s \<noteq> CurrentState (fsm w) \<longrightarrow> fst (ChangeState call s w) = StateChanged"
    using assms(3) by (simp add: ChangeState_def Let_def split: prod.splits)
  have "invoke0 call None = id"
    by (rule ext) (simp add: invoke0_def)
  with same changed assms(4,6) show ?thesis by simp
qed

text \<open>
  Into \<open>Stunned\<close> on the concrete owner, where no map has an entry for it; out of it on
  the machine constructed in \<open>Stunned\<close>; and, once \<open>Stunned\<close> has been entered and ticked in
  and two maps hold a null entry for it, out of it and into it again. Each run is next
  to the run on the machine that has \<open>Stunned\<close> registered with three null callbacks.
\<close>

theorem unregistered_state_as_null_registered_witness:
  "oblivious demo_call \<and> Owner (fsm demo_start) \<noteq> None \<and>
   registered (StatesOnEnter (fsm demo_start)) Stunned = None \<and>
   registered (StatesTick (fsm demo_start)) Stunned = None \<and>
   registered (StatesOnExit (fsm demo_start)) Stunned = None \<and>
   fst (ChangeState demo_call Stunned demo_start) = StateChanged \<and>
   fst (ChangeState demo_call Stunned
          (demo_start\<lparr>fsm := RegisterState Stunned None None None (fsm demo_start)\<rparr>)) =
     StateChanged \<and>
   alike (snd (ChangeState demo_call Stunned demo_start))
     (snd (ChangeState demo_call Stunned
             (demo_start\<lparr>fsm := RegisterState Stunned None None None (fsm demo_start)\<rparr>))) \<and>
   env (snd (ChangeState demo_call Stunned demo_start)) = [Ran OnExitIdle] \<and>
   Owner (fsm stunned_start) \<noteq> None \<and>
   registered (StatesOnEnter (fsm stunned_start)) Stunned = None \<and>
   registered (StatesTick (fsm stunned_start)) Stunned = None \<and>
   registered (StatesOnExit (fsm stunned_start)) Stunned = None \<and>
   fst (ChangeState demo_call Idle stunned_start) = StateChanged \<and>
   fst (ChangeState demo_call Idle
          (stunned_start\<lparr>fsm := RegisterState Stunned None None None (fsm stunned_start)\<rparr>)) =
     StateChanged \<and>
   alike (snd (ChangeState demo_call Idle stunned_start))
     (snd (ChangeState demo_call Idle
             (stunned_start\<lparr>fsm := RegisterState Stunned None None None (fsm stunned_start)\<rparr>))) \<and>
   env (snd (ChangeState demo_call Idle stunned_start)) = [Ran OnEnterIdle] \<and>
   Owner (fsm stunned_visited) \<noteq> None \<and> CurrentState (fsm stunned_visited) = Stunned \<and>
   Stunned \<in> dom (StatesOnEnter (fsm stunned_visited)) \<and>
   Stunned \<in> dom (StatesTick (fsm stunned_visited)) \<and>
   registered (StatesOnEnter (fsm stunned_visited)) Stunned = None \<and>
   registered (StatesTick (fsm stunned_visited)) Stunned = None \<and>
   registered (StatesOnExit (fsm stunned_visited)) Stunned = None \<and>
   fst (ChangeState demo_call Idle stunned_visited) = StateChanged \<and>
   fst (ChangeState demo_call Idle
          (stunned_visited\<lparr>fsm := RegisterState Stunned None None None (fsm stunned_visited)\<rparr>)) =
     StateChanged \<and>
   alike (snd (ChangeState demo_call Idle stunned_visited))
     (snd (ChangeState demo_call Idle
             (stunned_visited\<lparr>fsm := RegisterState Stunned None None None (fsm stunned_visited)\<rparr>))) \<and>
   env (snd (ChangeState demo_call Idle stunned_visited)) = [Ran OnExitIdle, Ran OnEnterIdle] \<and>
   Owner (fsm (snd (ChangeState demo_call Idle stunned_visited))) \<noteq> None \<and>
   registered (StatesOnEnter (fsm (snd (ChangeState demo_call Idle stunned_visited)))) Stunned =
     None \<and>
   registered (StatesTick (fsm (snd (ChangeState demo_call Idle stunned_visited)))) Stunned =
     None \<and>
   registered (StatesOnExit (fsm (snd (ChangeState demo_call Idle stunned_visited)))) Stunned =
     None \<and>
   Stunned \<in> dom (StatesOnExit (fsm (snd (ChangeState demo_call Idle stunned_visited)))) \<and>
   fst (ChangeState demo_call Stunned (snd (ChangeState demo_call Idle stunned_visited))) =
     StateChanged \<and>
   alike (snd (ChangeState demo_call Stunned (snd (ChangeState demo_call Idle stunned_visited))))
     (snd (ChangeState demo_call Stunned
             ((snd (ChangeState demo_call Idle stunned_visited))
                \<lparr>fsm := RegisterState Stunned None None None
                          (fsm (snd (ChangeState demo_call Idle stunned_visited)))\<rparr>))) \<and>
   env (snd (ChangeState demo_call Stunned (snd (ChangeState demo_call Idle stunned_visited)))) =
     [Ran OnExitIdle, Ran OnEnterIdle, Ran OnExitIdle]"
proof -
  have visited: "stunned_visited =
      \<lparr>fsm = demo_machine\<lparr>CurrentState := Stunned,
               StatesOnEnter := (StatesOnEnter demo_machine)(Stunned \<mapsto> None),
               StatesTick := (StatesTick demo_machine)(Stunned \<mapsto> None)\<rparr>,
       env = [Ran OnExitIdle]\<rparr>"
    by (simp add: stunned_visited_def demo_start_def demo_machine_eq ChangeState_def Tick_def
        map_index_def invoke0_def demo_call_def demo_log_def)
  have left: "ChangeState demo_call Idle stunned_visited =
      (StateChanged,
       \<lparr>fsm = demo_machine\<lparr>StatesOnEnter := (StatesOnEnter demo_machine)(Stunned \<mapsto> None),
               StatesTick := (StatesTick demo_machine)(Stunned \<mapsto> None),
               StatesOnExit := (StatesOnExit demo_machine)(Stunned \<mapsto> None)\<rparr>,
        env = [Ran OnExitIdle, Ran OnEnterIdle]\<rparr>)"
    by (simp add: visited demo_machine_eq ChangeState_def map_index_def invoke0_def
        demo_call_def demo_log_def fun_upd_twist)
  show ?thesis
    using unregistered_state_as_null_registered
            [where w = demo_start and u = Stunned and s = Stunned and call = demo_call]
          unregistered_state_as_null_registered
            [where w = stunned_start and u = Stunned and s = Idle and call = demo_call]
          unregistered_state_as_null_registered
            [where w = stunned_visited and u = Stunned and s = Idle and call = demo_call]
          unregistered_state_as_null_registered
            [where w = "snd (ChangeState demo_call Idle stunned_visited)" and u = Stunned
               and s = Stunned and call = demo_call]
          demo_call_oblivious
    unfolding left
    by (simp add: visited demo_start_def demo_machine_eq stunned_start_def RegisterState_eq
        TStateMachine_def ChangeState_def map_index_def invoke0_def demo_call_def demo_log_def
        registered_cases)
qed

subsection \<open>Registration\<close>

text \<open>
  C7. \<^verbatim>\<open>RegisterState\<close> has no failing path: it returns the machine with the three maps
  updated at the state and nothing else touched. Registering a state twice with the same
  callbacks gives what registering it once gives; registering it again with other
  callbacks leaves exactly what registering it with those alone leaves, so all three
  earlier bindings are gone; and the second registration adds no key to any of the maps,
  each of which holds one entry for the state.
\<close>

theorem RegisterState_overwrites:
  "RegisterState s a b c m =
     m\<lparr>StatesOnEnter := (StatesOnEnter m)(s \<mapsto> a), StatesTick := (StatesTick m)(s \<mapsto> b),
       StatesOnExit := (StatesOnExit m)(s \<mapsto> c)\<rparr> \<and>
   RegisterState s a b c (RegisterState s a b c m) = RegisterState s a b c m \<and>
   RegisterState s a b c (RegisterState s a' b' c' m) = RegisterState s a b c m \<and>
   dom (StatesOnEnter (RegisterState s a b c (RegisterState s a' b' c' m))) =
     dom (StatesOnEnter (RegisterState s a' b' c' m)) \<and>
   dom (StatesTick (RegisterState s a b c (RegisterState s a' b' c' m))) =
     dom (StatesTick (RegisterState s a' b' c' m)) \<and>
   dom (StatesOnExit (RegisterState s a b c (RegisterState s a' b' c' m))) =
     dom (StatesOnExit (RegisterState s a' b' c' m)) \<and>
   dom (StatesOnEnter (RegisterState s a b c m)) = insert s (dom (StatesOnEnter m)) \<and>
   dom (StatesTick (RegisterState s a b c m)) = insert s (dom (StatesTick m)) \<and>
   dom (StatesOnExit (RegisterState s a b c m)) = insert s (dom (StatesOnExit m))"
  by (simp add: RegisterState_def map_index_eq)

subsection \<open>Statuses\<close>

text \<open>
  C8. \<^verbatim>\<open>Tick\<close> returns \<^verbatim>\<open>NullOwner\<close> or \<^verbatim>\<open>TickSuccess\<close>, \<^verbatim>\<open>ChangeState\<close> returns \<^verbatim>\<open>NullOwner\<close>,
  \<^verbatim>\<open>StateChanged\<close> or \<^verbatim>\<open>StateUnchanged\<close>, and the enumeration has these four values and no
  other.
\<close>

theorem status_domain:
  "fst (Tick callf dt w) \<in> {NullOwner, TickSuccess} \<and>
   fst (ChangeState call s w) \<in> {NullOwner, StateChanged, StateUnchanged} \<and>
   fst (Tick callf dt w) \<noteq> StateChanged \<and> fst (Tick callf dt w) \<noteq> StateUnchanged \<and>
   fst (ChangeState call s w) \<noteq> TickSuccess \<and>
   (UNIV :: EStateMachineStatus set) = {NullOwner, StateChanged, StateUnchanged, TickSuccess}"
proof -
  have tick: "fst (Tick callf dt w) \<in> {NullOwner, TickSuccess}"
    by (simp add: Tick_def Let_def split: prod.splits option.splits)
  have change: "fst (ChangeState call s w) \<in> {NullOwner, StateChanged, StateUnchanged}"
    by (simp add: ChangeState_def Let_def split: prod.splits)
  have "x \<in> {NullOwner, StateChanged, StateUnchanged, TickSuccess}" for x :: EStateMachineStatus
    by (cases x) simp_all
  then have "(UNIV :: EStateMachineStatus set) =
      {NullOwner, StateChanged, StateUnchanged, TickSuccess}"
    by blast
  with tick change show ?thesis by auto
qed

subsection \<open>Construction and the accessor\<close>

text \<open>
  C9. A machine constructed with any owner pointer and any initial state reports that
  state from \<^verbatim>\<open>GetCurrentState\<close>; its three maps are empty, so the initial state is not
  registered. \<^verbatim>\<open>GetCurrentState\<close> returns the current state of any machine and leaves the
  machine, with its owner pointer, current state and maps, as it was.
\<close>

theorem construction_and_accessor:
  "fst (GetCurrentState (TStateMachine owner s0)) = s0 \<and>
   Owner (TStateMachine owner s0) = owner \<and>
   StatesOnEnter (TStateMachine owner s0) = Map.empty \<and>
   StatesTick (TStateMachine owner s0) = Map.empty \<and>
   StatesOnExit (TStateMachine owner s0) = Map.empty \<and>
   fst (GetCurrentState m) = CurrentState m \<and>
   snd (GetCurrentState m) = m"
  by (simp add: GetCurrentState_def TStateMachine_def)

subsection \<open>What the lookups leave in the maps\<close>

text \<open>
  C10. With an owner, the lookups write to the maps. \<^verbatim>\<open>Tick\<close> in a current state without an
  entry in \<^verbatim>\<open>StatesTick\<close> returns with a null entry for it there. A genuine transition
  from a state without an entry in \<^verbatim>\<open>StatesOnExit\<close> puts a null entry for that state
  there before anything else happens, so that the enter callback, if one runs, finds it;
  and when the target has no entry in \<^verbatim>\<open>StatesOnEnter\<close> once the exit callback has
  returned (\<open>w3\<close>), the call ends with a null entry for the target there. When both are
  missing, the call only adds the two null entries and changes the current state. A null
  entry reads as no callback, which is what the missing entry read as.
\<close>

theorem lookups_insert_null_entries:
  fixes call :: "('s, 'e, 'u, 'a, 'h) nullary_call"
    and w :: "('s, 'e, 'u, 'a, 'h) world" and s :: 's
  defines "old \<equiv> CurrentState (fsm w)"
  defines "callbackExit \<equiv> registered (StatesOnExit (fsm w)) old"
  defines "w3 \<equiv> invoke0 call callbackExit
                   (w\<lparr>fsm := (fsm w)\<lparr>StatesOnExit :=
                        (StatesOnExit (fsm w))(old \<mapsto> callbackExit)\<rparr>\<rparr>)"
  assumes "Owner (fsm w) \<noteq> None"
  shows "(old \<notin> dom (StatesTick (fsm w)) \<longrightarrow>
            Tick callf dt w =
              (NullOwner,
               w\<lparr>fsm := (fsm w)\<lparr>StatesTick := (StatesTick (fsm w))(old \<mapsto> None)\<rparr>\<rparr>)) \<and>
         (s \<noteq> old \<and> old \<notin> dom (StatesOnExit (fsm w)) \<and> s \<notin> dom (StatesOnEnter (fsm w)) \<longrightarrow>
            ChangeState call s w =
              (StateChanged,
               w\<lparr>fsm := (fsm w)\<lparr>StatesOnExit := (StatesOnExit (fsm w))(old \<mapsto> None),
                                  CurrentState := s,
                                  StatesOnEnter := (StatesOnEnter (fsm w))(s \<mapsto> None)\<rparr>\<rparr>)) \<and>
         (s \<noteq> old \<and> old \<notin> dom (StatesOnExit (fsm w)) \<longrightarrow>
            ChangeState call s w =
              (StateChanged,
               invoke0 call (registered (StatesOnEnter (fsm w)) s)
                 (w\<lparr>fsm := (fsm w)\<lparr>StatesOnExit := (StatesOnExit (fsm w))(old \<mapsto> None),
                                    CurrentState := s,
                                    StatesOnEnter := (StatesOnEnter (fsm w))
                                       (s \<mapsto> registered (StatesOnEnter (fsm w)) s)\<rparr>\<rparr>))) \<and>
         (s \<noteq> old \<and> s \<notin> dom (StatesOnEnter (fsm w3)) \<longrightarrow>
            ChangeState call s w =
              (StateChanged,
               w3\<lparr>fsm := (fsm w3)\<lparr>CurrentState := s,
                                    StatesOnEnter := (StatesOnEnter (fsm w3))(s \<mapsto> None)\<rparr>\<rparr>))"
proof -
  have tick: "Tick callf dt w =
      (NullOwner, w\<lparr>fsm := (fsm w)\<lparr>StatesTick := (StatesTick (fsm w))(old \<mapsto> None)\<rparr>\<rparr>)"
    if "old \<notin> dom (StatesTick (fsm w))"
    using that assms(4) by (auto simp: Tick_def map_index_def old_def domIff)
  have both: "ChangeState call s w =
      (StateChanged,
       w\<lparr>fsm := (fsm w)\<lparr>StatesOnExit := (StatesOnExit (fsm w))(old \<mapsto> None),
                          CurrentState := s,
                          StatesOnEnter := (StatesOnEnter (fsm w))(s \<mapsto> None)\<rparr>\<rparr>)"
    if "s \<noteq> old" "old \<notin> dom (StatesOnExit (fsm w))" "s \<notin> dom (StatesOnEnter (fsm w))"
    using that assms(4)
    by (auto simp: ChangeState_def map_index_def old_def invoke0_def domIff)
  have exit: "ChangeState call s w =
      (StateChanged,
       invoke0 call (registered (StatesOnEnter (fsm w)) s)
         (w\<lparr>fsm := (fsm w)\<lparr>StatesOnExit := (StatesOnExit (fsm w))(old \<mapsto> None),
                            CurrentState := s,
                            StatesOnEnter := (StatesOnEnter (fsm w))
                               (s \<mapsto> registered (StatesOnEnter (fsm w)) s)\<rparr>\<rparr>))"
    if "s \<noteq> old" "old \<notin> dom (StatesOnExit (fsm w))"
  proof -
    have "registered (StatesOnExit (fsm w)) (CurrentState (fsm w)) = None"
      using that(2) by (auto simp: registered_cases old_def domIff)
    then show ?thesis
      using that(1) assms(4) unfolding old_def
      by (simp add: ChangeState_def map_index_eq Let_def invoke0_None)
  qed
  have enter: "ChangeState call s w =
      (StateChanged,
       w3\<lparr>fsm := (fsm w3)\<lparr>CurrentState := s,
                            StatesOnEnter := (StatesOnEnter (fsm w3))(s \<mapsto> None)\<rparr>\<rparr>)"
    if "s \<noteq> old" "s \<notin> dom (StatesOnEnter (fsm w3))"
  proof -
    have "registered (StatesOnEnter (fsm w3)) s = None"
      using that(2) by (auto simp: registered_cases domIff)
    then show ?thesis
      using that(1) assms(4) unfolding w3_def callbackExit_def old_def
      by (simp add: ChangeState_def map_index_eq Let_def invoke0_None)
  qed
  show ?thesis
    using tick both exit enter by blast
qed

text \<open>
  On the machine without registrations, \<^verbatim>\<open>Tick\<close> leaves one key in \<^verbatim>\<open>StatesTick\<close>, and
  \<^verbatim>\<open>ChangeState(Moving)\<close> one key in \<^verbatim>\<open>StatesOnExit\<close> and one in \<^verbatim>\<open>StatesOnEnter\<close>. On the
  concrete owner, \<^verbatim>\<open>ChangeState(Stunned)\<close> runs the exit callback of \<open>Idle\<close> and then adds
  \<open>Stunned\<close> to the keys of \<^verbatim>\<open>StatesOnEnter\<close>.
\<close>

theorem lookups_insert_null_entries_witness:
  "Owner (fsm bare_start) \<noteq> None \<and>
   CurrentState (fsm bare_start) \<notin> dom (StatesTick (fsm bare_start)) \<and>
   Tick demo_callf (1 / 2) bare_start =
     (NullOwner, \<lparr>fsm = (TStateMachine (Some 1) Idle)\<lparr>StatesTick := [Idle \<mapsto> None]\<rparr>, env = []\<rparr>) \<and>
   Moving \<noteq> CurrentState (fsm bare_start) \<and>
   CurrentState (fsm bare_start) \<notin> dom (StatesOnExit (fsm bare_start)) \<and>
   Moving \<notin> dom (StatesOnEnter (fsm bare_start)) \<and>
   ChangeState demo_call Moving bare_start =
     (StateChanged,
      \<lparr>fsm = \<lparr>Owner = Some 1, CurrentState = Moving, StatesOnEnter = [Moving \<mapsto> None],
              StatesTick = Map.empty, StatesOnExit = [Idle \<mapsto> None]\<rparr>,
       env = []\<rparr>) \<and>
   Owner (fsm demo_start) \<noteq> None \<and> Stunned \<noteq> CurrentState (fsm demo_start) \<and>
   ChangeState demo_call Stunned demo_start =
     (StateChanged,
      \<lparr>fsm = demo_machine\<lparr>CurrentState := Stunned,
                StatesOnEnter := (StatesOnEnter demo_machine)(Stunned \<mapsto> None)\<rparr>,
       env = [Ran OnExitIdle]\<rparr>)"
  using lookups_insert_null_entries
          [where w = bare_start and s = Moving and call = demo_call and callf = demo_callf
             and dt = "1 / 2"]
        lookups_insert_null_entries
          [where w = demo_start and s = Stunned and call = demo_call]
  by (simp add: bare_start_def demo_start_def demo_machine_eq TStateMachine_def registered_cases
      invoke0_def demo_call_def demo_log_def fun_upd_idem)

subsection \<open>The scenario of section 8 of the specification\<close>

text \<open>
  \<^verbatim>\<open>ChangeState(Moving)\<close>, \<^verbatim>\<open>Tick(0.5)\<close>, \<^verbatim>\<open>ChangeState(Moving)\<close> and \<^verbatim>\<open>ChangeState(Idle)\<close> in a row on
  the concrete owner: the statuses, the log of the callbacks and the current state.
\<close>

lemma concrete_scenario:
  fixes r1 r2 r3 r4
  defines "r1 \<equiv> ChangeState demo_call Moving demo_start"
  defines "r2 \<equiv> Tick demo_callf (1 / 2) (snd r1)"
  defines "r3 \<equiv> ChangeState demo_call Moving (snd r2)"
  defines "r4 \<equiv> ChangeState demo_call Idle (snd r3)"
  shows "fst r1 = StateChanged \<and> env (snd r1) = [Ran OnExitIdle, Ran OnEnterMoving] \<and>
         fst (GetCurrentState (fsm (snd r1))) = Moving \<and>
         fst r2 = TickSuccess \<and>
         env (snd r2) = [Ran OnExitIdle, Ran OnEnterMoving, RanWith OnTickMoving (1 / 2)] \<and>
         r3 = (StateUnchanged, snd r2) \<and>
         fst r4 = StateChanged \<and>
         env (snd r4) =
           [Ran OnExitIdle, Ran OnEnterMoving, RanWith OnTickMoving (1 / 2), Ran OnEnterIdle] \<and>
         fst (GetCurrentState (fsm (snd r4))) = Idle"
proof -
  have 1: "r1 = (StateChanged, \<lparr>fsm = demo_machine\<lparr>CurrentState := Moving\<rparr>,
                     env = [Ran OnExitIdle, Ran OnEnterMoving]\<rparr>)"
    by (simp add: r1_def demo_start_def demo_machine_eq ChangeState_def map_index_def invoke0_def
        demo_call_def demo_log_def)
  have 2: "r2 = (TickSuccess, \<lparr>fsm = demo_machine\<lparr>CurrentState := Moving\<rparr>,
                     env = [Ran OnExitIdle, Ran OnEnterMoving, RanWith OnTickMoving (1 / 2)]\<rparr>)"
    by (simp add: r2_def 1 demo_machine_eq Tick_def map_index_def demo_callf_def)
  have 3: "r3 = (StateUnchanged, snd r2)"
    by (simp add: r3_def 2 demo_machine_eq ChangeState_def)
  have 4: "r4 = (StateChanged, \<lparr>fsm = demo_machine,
                     env = [Ran OnExitIdle, Ran OnEnterMoving, RanWith OnTickMoving (1 / 2),
                            Ran OnEnterIdle]\<rparr>)"
    by (simp add: r4_def 3 2 demo_machine_eq ChangeState_def map_index_def invoke0_def
        demo_call_def demo_log_def)
  show ?thesis
    by (simp add: 1 2 3 4 GetCurrentState_def demo_machine_eq)
qed

end
